theory Spec2Isabelle
  imports Complex_Main
begin

section \<open>JavaScript values\<close>

text \<open>
  The functions of \<^verbatim>\<open>js/logic.js\<close> work on dynamically typed JavaScript values.
  Numbers are IEEE doubles in the source; the model keeps the three special values and
  idealises every finite double as an exact rational (no rounding, no overflow, \<open>-0\<close> and
  \<open>+0\<close> identified). Strings are sequences of code units; the model is faithful on
  ASCII text (case mapping and white space of other characters are not modelled).
\<close>

datatype jsnum = NaN | NegInf | Fin rat | PosInf

datatype prim = Undefined | Null | Bool bool | Num jsnum | Str string

text \<open>
  Objects and arrays live in a store and are referred to by address, so that aliasing
  and in-place updates (\<^verbatim>\<open>Array.prototype.sort\<close>) are visible. A record of the
  application is a flat object: its fields hold primitive values. An address is an
  index into the store; allocation appends a cell.
\<close>

type_synonym addr = nat

datatype jsval = Prim prim | Ref addr

datatype cell = ObjCell "(string \<times> prim) list" | ArrCell "jsval list"

type_synonym heap = "cell list"

datatype error = TypeError

text \<open>An address outside the store does not occur in a program; it reads as an empty object.\<close>

definition cell_at :: "heap \<Rightarrow> addr \<Rightarrow> cell" where
  "cell_at h a = (if a < length h then h ! a else ObjCell [])"

definition alloc :: "heap \<Rightarrow> cell \<Rightarrow> heap \<times> addr" where
  "alloc h c = (h @ [c], length h)"

subsection \<open>Coercions\<close>

text \<open>\<^verbatim>\<open>ToBoolean\<close>: the falsy values are undefined, null, false, NaN, 0 and the empty string.\<close>

fun ToBoolean :: "prim \<Rightarrow> bool" where
  "ToBoolean Undefined = False"
| "ToBoolean Null = False"
| "ToBoolean (Bool b) = b"
| "ToBoolean (Num n) = (n \<noteq> NaN \<and> n \<noteq> Fin 0)"
| "ToBoolean (Str s) = (s \<noteq> [])"

definition falsy :: "prim \<Rightarrow> bool" where
  "falsy p = (\<not> ToBoolean p)"

text \<open>\<^verbatim>\<open>a || b\<close> as a value.\<close>

definition js_or :: "prim \<Rightarrow> prim \<Rightarrow> prim" where
  "js_or a b = (if ToBoolean a then a else b)"

text \<open>Characters and white space (\<^verbatim>\<open>\s\<close>, \<^verbatim>\<open>trim\<close>): tab, LF, VT, FF, CR and space.\<close>

definition is_digit :: "char \<Rightarrow> bool" where
  "is_digit c = (c \<in> set ''0123456789'')"

definition is_space :: "char \<Rightarrow> bool" where
  "is_space c = (c \<in> set [CHR 0x09, CHR 0x0A, CHR 0x0B, CHR 0x0C, CHR 0x0D, CHR '' ''])"



definition lower_char :: "char \<Rightarrow> char" where
  "lower_char c =
     (case map_of (zip ''ABCDEFGHIJKLMNOPQRSTUVWXYZ'' ''abcdefghijklmnopqrstuvwxyz'') c of
        Some l \<Rightarrow> l | None \<Rightarrow> c)"

definition toLowerCase :: "string \<Rightarrow> string" where
  "toLowerCase s = map lower_char s"

definition trim :: "string \<Rightarrow> string" where
  "trim s = rev (dropWhile is_space (rev (dropWhile is_space s)))"

text \<open>The value of a digit in base 16 (so also in base 10, 8 and 2), if it is one.\<close>

definition hex_val :: "char \<Rightarrow> nat option" where
  "hex_val c =
     map_of (zip ''0123456789abcdef'' [0 ..< 16] @ zip ''ABCDEF'' [10 ..< 16]) c"

definition digit_val :: "char \<Rightarrow> nat" where
  "digit_val c = (case hex_val c of Some d \<Rightarrow> d | None \<Rightarrow> 0)"

definition digits_val :: "nat \<Rightarrow> string \<Rightarrow> nat" where
  "digits_val base ds = foldl (\<lambda>n c. base * n + digit_val c) 0 ds"

definition is_digit_of :: "nat \<Rightarrow> char \<Rightarrow> bool" where
  "is_digit_of base c = (case hex_val c of Some d \<Rightarrow> d < base | None \<Rightarrow> False)"

text \<open>
  The longest prefix of \<open>s\<close> that is a \<^verbatim>\<open>StrUnsignedDecimalLiteral\<close> other than
  \<^verbatim>\<open>Infinity\<close> (digits, an optional fraction, an optional exponent), with its value and
  what follows it. \<^verbatim>\<open>parseFloat\<close> and \<^verbatim>\<open>ToNumber\<close> share it.
\<close>

definition exponent_part :: "string \<Rightarrow> (int \<times> string) option" where
  "exponent_part s =
     (case s of
        [] \<Rightarrow> None
      | e # r \<Rightarrow>
          if e \<noteq> CHR ''e'' \<and> e \<noteq> CHR ''E'' then None
          else let (neg, r') = (case r of
                                  [] \<Rightarrow> (False, r)
                                | g # r'' \<Rightarrow> if g = CHR ''-'' then (True, r'')
                                             else if g = CHR ''+'' then (False, r'')
                                             else (False, r));
                   ds = takeWhile is_digit r'
               in if ds = [] then None
                  else Some ((if neg then - int (digits_val 10 ds) else int (digits_val 10 ds)),
                             dropWhile is_digit r'))"

definition pow10 :: "int \<Rightarrow> rat" where
  "pow10 e = (if 0 \<le> e then 10 ^ nat e else 1 / 10 ^ nat (- e))"

definition unsigned_decimal :: "string \<Rightarrow> (rat \<times> string) option" where
  "unsigned_decimal s =
     (let ip = takeWhile is_digit s; r1 = dropWhile is_digit s;
          (fp, r2) = (case r1 of
                        [] \<Rightarrow> ([], r1)
                      | d # r \<Rightarrow> if d = CHR ''.'' \<and> (ip \<noteq> [] \<or> takeWhile is_digit r \<noteq> [])
                                  then (takeWhile is_digit r, dropWhile is_digit r)
                                  else ([], r1))
      in if ip = [] \<and> fp = [] then None
         else let m = of_nat (digits_val 10 ip) + of_nat (digits_val 10 fp) / 10 ^ length fp
              in (case exponent_part r2 of
                    None \<Rightarrow> Some (m, r2)
                  | Some (e, r3) \<Rightarrow> Some (m * pow10 e, r3)))"

fun js_neg :: "jsnum \<Rightarrow> jsnum" where
  "js_neg NaN = NaN"
| "js_neg NegInf = PosInf"
| "js_neg PosInf = NegInf"
| "js_neg (Fin q) = Fin (- q)"

text \<open>The longest prefix that is a \<^verbatim>\<open>StrDecimalLiteral\<close>: a sign, then \<^verbatim>\<open>Infinity\<close> or a decimal.\<close>

definition starts_with :: "string \<Rightarrow> string \<Rightarrow> bool" where
  "starts_with p s = (take (length p) s = p)"

definition unsigned_literal :: "string \<Rightarrow> (jsnum \<times> string) option" where
  "unsigned_literal s =
     (if starts_with ''Infinity'' s then Some (PosInf, drop 8 s)
      else (case unsigned_decimal s of
              None \<Rightarrow> None
            | Some (q, r) \<Rightarrow> Some (Fin q, r)))"

definition decimal_literal :: "string \<Rightarrow> (jsnum \<times> string) option" where
  "decimal_literal s =
     (case s of
        [] \<Rightarrow> None
      | c # r \<Rightarrow>
          if c = CHR ''-'' then (case unsigned_literal r of
                                   None \<Rightarrow> None
                                 | Some (n, r') \<Rightarrow> Some (js_neg n, r'))
          else if c = CHR ''+'' then unsigned_literal r
          else unsigned_literal s)"

text \<open>\<^verbatim>\<open>0x\<close>, \<^verbatim>\<open>0o\<close> and \<^verbatim>\<open>0b\<close> literals (\<^verbatim>\<open>NonDecimalIntegerLiteral\<close>), unsigned and whole.\<close>

definition non_decimal :: "string \<Rightarrow> jsnum option" where
  "non_decimal s =
     (case s of
        z # x # ds \<Rightarrow>
          (let base = (if x \<in> set ''xX'' then 16 else if x \<in> set ''oO'' then 8
                       else if x \<in> set ''bB'' then 2 else (0::nat))
           in if z = CHR ''0'' \<and> base \<noteq> 0 \<and> ds \<noteq> [] \<and> list_all (is_digit_of base) ds
              then Some (Fin (of_nat (digits_val base ds))) else None)
      | _ \<Rightarrow> None)"

text \<open>\<^verbatim>\<open>StringToNumber\<close>: white space is trimmed, the empty string is 0, anything that is
  not a numeric literal as a whole is NaN.\<close>

definition StringToNumber :: "string \<Rightarrow> jsnum" where
  "StringToNumber s =
     (let t = trim s
      in if t = [] then Fin 0
         else (case non_decimal t of
                 Some n \<Rightarrow> n
               | None \<Rightarrow> (case decimal_literal t of
                            Some (n, []) \<Rightarrow> n
                          | _ \<Rightarrow> NaN)))"

fun ToNumber :: "prim \<Rightarrow> jsnum" where
  "ToNumber Undefined = NaN"
| "ToNumber Null = Fin 0"
| "ToNumber (Bool b) = (if b then Fin 1 else Fin 0)"
| "ToNumber (Num n) = n"
| "ToNumber (Str s) = StringToNumber s"

subsection \<open>Arithmetic and comparison\<close>




text \<open>\<open>x < y\<close> on numbers; every comparison with NaN is false.\<close>

fun num_lt :: "jsnum \<Rightarrow> jsnum \<Rightarrow> bool" where
  "num_lt NaN y = False"
| "num_lt x NaN = False"
| "num_lt (Fin a) (Fin b) = (a < b)"
| "num_lt x NegInf = False"
| "num_lt NegInf y = True"
| "num_lt PosInf y = False"
| "num_lt x PosInf = True"

text \<open>Strings compare by code units, lexicographically.\<close>

fun str_lt :: "string \<Rightarrow> string \<Rightarrow> bool" where
  "str_lt [] [] = False"
| "str_lt [] (y # ys) = True"
| "str_lt (x # xs) [] = False"
| "str_lt (x # xs) (y # ys) =
     (if x = y then str_lt xs ys else (of_char x :: nat) < of_char y)"

text \<open>The relational operator \<^verbatim>\<open>a < b\<close> on primitives: two strings compare as strings,
  anything else as numbers. \<^verbatim>\<open>a > b\<close> is \<open>js_lt b a\<close>.\<close>

fun js_lt :: "prim \<Rightarrow> prim \<Rightarrow> bool" where
  "js_lt (Str a) (Str b) = str_lt a b"
| "js_lt a b = num_lt (ToNumber a) (ToNumber b)"

definition js_gt :: "prim \<Rightarrow> prim \<Rightarrow> bool" where
  "js_gt a b = js_lt b a"

text \<open>Strict equality \<^verbatim>\<open>===\<close> on primitives: by value, NaN differing from itself.\<close>

definition strict_equal :: "prim \<Rightarrow> prim \<Rightarrow> bool" where
  "strict_equal a b = (a = b \<and> a \<noteq> Num NaN)"

subsection \<open>Errors\<close>

text \<open>A function that may throw returns \<open>error + 'a\<close>; \<open>ebind\<close> runs the rest after a
  normal return and passes an exception on.\<close>

definition ebind :: "error + 'a \<Rightarrow> ('a \<Rightarrow> error + 'b) \<Rightarrow> error + 'b" where
  "ebind m f = (case m of Inl e \<Rightarrow> Inl e | Inr x \<Rightarrow> f x)"

text \<open>\<^verbatim>\<open>a || b\<close> and \<^verbatim>\<open>a && b\<close> on conditions: the right operand runs only when the left
  one does not decide.\<close>

definition orelse :: "error + bool \<Rightarrow> error + bool \<Rightarrow> error + bool" where
  "orelse a b = ebind a (\<lambda>x. if x then Inr True else b)"

definition andthen :: "error + bool \<Rightarrow> error + bool \<Rightarrow> error + bool" where
  "andthen a b = ebind a (\<lambda>x. if x then b else Inr False)"

subsection \<open>Property access\<close>

text \<open>
  \<^verbatim>\<open>v.k\<close> for a field name \<open>k\<close> of the application's records (none of them names a
  built-in property): reading a property of undefined or null throws; a primitive or an
  array has no such property; an object has it or not.
\<close>

definition own_props :: "(string \<times> prim) list \<Rightarrow> string \<Rightarrow> prim" where
  "own_props fs k = (case map_of fs k of Some p \<Rightarrow> p | None \<Rightarrow> Undefined)"

definition props_of :: "heap \<Rightarrow> jsval \<Rightarrow> error + (string \<Rightarrow> prim)" where
  "props_of h v =
     (case v of
        Prim Undefined \<Rightarrow> Inl TypeError
      | Prim Null \<Rightarrow> Inl TypeError
      | Prim _ \<Rightarrow> Inr (\<lambda>k. Undefined)
      | Ref a \<Rightarrow>
          (case cell_at h a of
             ObjCell fs \<Rightarrow> Inr (own_props fs)
           | ArrCell xs \<Rightarrow> Inr (\<lambda>k. Undefined)))"

definition get_prop :: "heap \<Rightarrow> jsval \<Rightarrow> string \<Rightarrow> error + prim" where
  "get_prop h v k = ebind (props_of h v) (\<lambda>d. Inr (d k))"

text \<open>A string method called on a value: only a string has \<^verbatim>\<open>trim\<close>, \<^verbatim>\<open>toLowerCase\<close>,
  \<^verbatim>\<open>includes\<close> and \<^verbatim>\<open>replace\<close>.\<close>

definition as_string :: "prim \<Rightarrow> error + string" where
  "as_string v = (case v of Str s \<Rightarrow> Inr s | _ \<Rightarrow> Inl TypeError)"

subsection \<open>Regular expressions\<close>














text \<open>\<^verbatim>\<open>s.includes(t)\<close>.\<close>

fun str_includes :: "string \<Rightarrow> string \<Rightarrow> bool" where
  "str_includes [] t = (t = [])"
| "str_includes (c # s) t = (starts_with t (c # s) \<or> str_includes s t)"

section \<open>The platform\<close>

text \<open>
  What the source takes from its platform and the model does not compute: whether
  \<^verbatim>\<open>new URL(v)\<close> returns (the URL parser), how a number prints (\<^verbatim>\<open>Number::toString\<close>),
  and the whole days between a date and the time of the call,
  \<^verbatim>\<open>Math.floor(Math.abs(new Date() - new Date(d)) / (1000*60*60*24))\<close>.
\<close>

record platform =
  url_parses :: "prim \<Rightarrow> bool"
  number_to_string :: "jsnum \<Rightarrow> string"
  days_between_now_and :: "prim \<Rightarrow> jsnum"

fun ToString :: "platform \<Rightarrow> prim \<Rightarrow> string" where
  "ToString P Undefined = ''undefined''"
| "ToString P Null = ''null''"
| "ToString P (Bool b) = (if b then ''true'' else ''false'')"
| "ToString P (Num n) = number_to_string P n"
| "ToString P (Str s) = s"

section \<open>validatePropertyData\<close>

text \<open>
  \<^verbatim>\<open>
  function validatePropertyData(data) {
      const errors = [];
      if (!data.address || data.address.trim().length === 0) {
          errors.push('Address is required');
      }
      if (!data.city || data.city.trim().length === 0) {
          errors.push('City is required');
      }
      if (data.beds !== null && (data.beds < 0 || data.beds > 50)) {
          errors.push('Beds must be between 0 and 50');
      }
      ... baths, sqft, asking, arv, rehab likewise ...
      if (data.pictures && !isValidURL(data.pictures)) {
          errors.push('Pictures link must be a valid URL');
      }
      ... contractLink, investorSheetLink likewise ...
      if (data.zip && !/^\d{5}(-\d{4})?$/.test(data.zip)) {
          errors.push('ZIP code must be 5 digits (optional 4-digit extension)');
      }
      return errors;
  }
  function isValidURL(string) {
      try { new URL(string); return true; } catch (_) { return false; }
  }
  \<close>
\<close>









section \<open>validateImportData\<close>

text \<open>
  \<^verbatim>\<open>
  function validateImportData(data) {
      if (!Array.isArray(data)) {
          return { valid: false, error: 'Expected array of properties' };
      }
      if (!data.every(p => p.address && p.city)) {
          return { valid: false, error: 'Missing required fields (address, city)' };
      }
      // Deduplicate by ID
      const uniqueData = [];
      const seenIds = new Set();
      for (const prop of data) {
          if (!seenIds.has(prop.id)) {
              seenIds.add(prop.id);
              uniqueData.push(prop);
          }
      }
      return { valid: true, properties: uniqueData,
               duplicatesRemoved: data.length - uniqueData.length };
  }
  \<close>
  The result object is a value of \<open>import_result\<close>; its \<open>properties\<close> array is a new
  cell of the store.
\<close>

datatype import_result = Invalid string | Valid addr int

text \<open>\<^verbatim>\<open>data.every(p => p.address && p.city)\<close>: stops at the first element that fails.\<close>

fun every_required :: "heap \<Rightarrow> jsval list \<Rightarrow> error + bool" where
  "every_required h [] = Inr True"
| "every_required h (p # ps) =
     ebind (andthen (ebind (get_prop h p ''address'') (\<lambda>v. Inr (ToBoolean v)))
                    (ebind (get_prop h p ''city'') (\<lambda>v. Inr (ToBoolean v))))
       (\<lambda>ok. if ok then every_required h ps else Inr False)"

text \<open>The loop, with \<open>uniqueData\<close> and \<open>seenIds\<close> as its state. A \<^verbatim>\<open>Set\<close> compares
  primitives by value (NaN equal to itself), which is equality of \<open>prim\<close>.\<close>

fun dedupe_loop :: "heap \<Rightarrow> jsval list \<Rightarrow> jsval list \<times> prim set \<Rightarrow> error + jsval list \<times> prim set" where
  "dedupe_loop h [] st = Inr st"
| "dedupe_loop h (prop # rest) (uniqueData, seenIds) =
     ebind (get_prop h prop ''id'') (\<lambda>i.
       if i \<notin> seenIds then dedupe_loop h rest (uniqueData @ [prop], insert i seenIds)
       else dedupe_loop h rest (uniqueData, seenIds))"

definition validateImportData :: "heap \<Rightarrow> jsval \<Rightarrow> heap \<times> (error + import_result)" where
  "validateImportData h data =
     (case data of
        Prim v \<Rightarrow> (h, Inr (Invalid ''Expected array of properties''))
      | Ref a \<Rightarrow>
          (case cell_at h a of
             ObjCell fs \<Rightarrow> (h, Inr (Invalid ''Expected array of properties''))
           | ArrCell xs \<Rightarrow>
               (case every_required h xs of
                  Inl e \<Rightarrow> (h, Inl e)
                | Inr False \<Rightarrow> (h, Inr (Invalid ''Missing required fields (address, city)''))
                | Inr True \<Rightarrow>
                    (case dedupe_loop h xs ([], {}) of
                       Inl e \<Rightarrow> (h, Inl e)
                     | Inr (uniqueData, seenIds) \<Rightarrow>
                         (let (h', u) = alloc h (ArrCell uniqueData)
                          in (h', Inr (Valid u (int (length xs) - int (length uniqueData)))))))))"

section \<open>getFiltered\<close>

text \<open>
  \<^verbatim>\<open>
  function getFiltered(properties, { currentFilter = 'all', countyFilter = null,
        typeFilter = null, searchTerm = '', sortField = 'dateAdded',
        sortDirection = 'desc' } = {}) {
      let f = properties.filter(p => {
          const stageOk = currentFilter === 'all' ||
              (currentFilter === 'ready' && p.stage === 'Ready to Blast') ||
              (currentFilter === 'new' && p.stage === 'New') ||
              (currentFilter === 'hold' && p.stage === 'On Hold') ||
              (currentFilter === 'high' && p.stage === 'Too High') ||
              (currentFilter === 'sold' && p.stage === 'Sold');
          const countyOk = !countyFilter || p.county === countyFilter;
          const typeOk = !typeFilter || p.type === typeFilter;
          const searchLower = searchTerm.toLowerCase();
          const searchOk = !searchTerm ||
              p.address.toLowerCase().includes(searchLower) ||
              p.city.toLowerCase().includes(searchLower) ||
              (p.county && p.county.toLowerCase().includes(searchLower)) ||
              (p.notes && p.notes.toLowerCase().includes(searchLower));
          return stageOk && countyOk && typeOk && searchOk;
      });
      f.sort((a,b) => {
          let av = a[sortField], bv = b[sortField];
          if (av == null || av === '') av = sortDirection === 'asc' ? Infinity : -Infinity;
          if (bv == null || bv === '') bv = sortDirection === 'asc' ? Infinity : -Infinity;
          if (typeof av === 'string') {
              av = av.toLowerCase();
              bv = bv.toLowerCase();
          }
          return sortDirection === 'asc' ?
              (av > bv ? 1 : av < bv ? -1 : 0) :
              (av < bv ? 1 : av > bv ? -1 : 0);
      });
      return f;
  }
  \<close>
  The options are primitive values, undefined where the caller gave none; the sort field
  is a field name or absent.
\<close>

record options =
  currentFilter :: prim
  countyFilter :: prim
  typeFilter :: prim
  searchTerm :: prim
  sortField :: "string option"
  sortDirection :: prim

definition with_default :: "prim \<Rightarrow> prim \<Rightarrow> prim" where
  "with_default d v = (if v = Undefined then d else v)"

definition defaults :: "options \<Rightarrow> options" where
  "defaults opts =
     \<lparr>currentFilter = with_default (Str ''all'') (currentFilter opts),
      countyFilter = with_default Null (countyFilter opts),
      typeFilter = with_default Null (typeFilter opts),
      searchTerm = with_default (Str []) (searchTerm opts),
      sortField = (case sortField opts of None \<Rightarrow> Some ''dateAdded'' | Some f \<Rightarrow> Some f),
      sortDirection = with_default (Str ''desc'') (sortDirection opts)\<rparr>"

definition sort_field_name :: "options \<Rightarrow> string" where
  "sort_field_name opts = (case sortField opts of None \<Rightarrow> ''dateAdded'' | Some f \<Rightarrow> f)"

text \<open>The conditions of the filter callback on a record \<open>p\<close>.\<close>

definition stage_is :: "heap \<Rightarrow> jsval \<Rightarrow> string \<Rightarrow> error + bool" where
  "stage_is h p s = ebind (get_prop h p ''stage'') (\<lambda>v. Inr (strict_equal v (Str s)))"

definition field_equals :: "heap \<Rightarrow> jsval \<Rightarrow> string \<Rightarrow> prim \<Rightarrow> error + bool" where
  "field_equals h p k v = ebind (get_prop h p k) (\<lambda>w. Inr (strict_equal w v))"

definition field_truthy :: "heap \<Rightarrow> jsval \<Rightarrow> string \<Rightarrow> error + bool" where
  "field_truthy h p k = ebind (get_prop h p k) (\<lambda>v. Inr (ToBoolean v))"

definition field_includes :: "heap \<Rightarrow> jsval \<Rightarrow> string \<Rightarrow> string \<Rightarrow> error + bool" where
  "field_includes h p k t =
     ebind (get_prop h p k) (\<lambda>v. ebind (as_string v) (\<lambda>s. Inr (str_includes (toLowerCase s) t)))"

definition filter_callback :: "heap \<Rightarrow> options \<Rightarrow> jsval \<Rightarrow> error + bool" where
  "filter_callback h opts p =
     ebind (orelse (Inr (strict_equal (currentFilter opts) (Str ''all'')))
           (orelse (andthen (Inr (strict_equal (currentFilter opts) (Str ''ready'')))
                            (stage_is h p ''Ready to Blast''))
           (orelse (andthen (Inr (strict_equal (currentFilter opts) (Str ''new'')))
                            (stage_is h p ''New''))
           (orelse (andthen (Inr (strict_equal (currentFilter opts) (Str ''hold'')))
                            (stage_is h p ''On Hold''))
           (orelse (andthen (Inr (strict_equal (currentFilter opts) (Str ''high'')))
                            (stage_is h p ''Too High''))
                   (andthen (Inr (strict_equal (currentFilter opts) (Str ''sold'')))
                            (stage_is h p ''Sold''))))))) (\<lambda>stageOk.
     ebind (orelse (Inr (\<not> ToBoolean (countyFilter opts)))
                   (field_equals h p ''county'' (countyFilter opts))) (\<lambda>countyOk.
     ebind (orelse (Inr (\<not> ToBoolean (typeFilter opts)))
                   (field_equals h p ''type'' (typeFilter opts))) (\<lambda>typeOk.
     ebind (as_string (searchTerm opts)) (\<lambda>term.
     let searchLower = toLowerCase term in
     ebind (orelse (Inr (\<not> ToBoolean (searchTerm opts)))
           (orelse (field_includes h p ''address'' searchLower)
           (orelse (field_includes h p ''city'' searchLower)
           (orelse (andthen (field_truthy h p ''county'') (field_includes h p ''county'' searchLower))
                   (andthen (field_truthy h p ''notes'') (field_includes h p ''notes'' searchLower))))))
       (\<lambda>searchOk. Inr (stageOk \<and> countyOk \<and> typeOk \<and> searchOk))))))"

text \<open>\<^verbatim>\<open>xs.filter(f)\<close>: the elements in order; an exception of the callback ends the call.\<close>

fun filter_js :: "('a \<Rightarrow> error + bool) \<Rightarrow> 'a list \<Rightarrow> error + 'a list" where
  "filter_js f [] = Inr []"
| "filter_js f (x # xs) =
     ebind (f x) (\<lambda>keep. ebind (filter_js f xs) (\<lambda>r. Inr (if keep then x # r else r)))"

text \<open>The comparator. A null, undefined or empty key becomes \<open>Infinity\<close> or \<open>-Infinity\<close>;
  when the first key is then a string, both are lowered, which throws if the second is
  not a string.\<close>

definition sort_key :: "prim \<Rightarrow> prim \<Rightarrow> prim" where
  "sort_key direction v =
     (if v = Null \<or> v = Undefined \<or> v = Str []
      then (if strict_equal direction (Str ''asc'') then Num PosInf else Num NegInf)
      else v)"

definition lower_both :: "prim \<Rightarrow> prim \<Rightarrow> error + prim \<times> prim" where
  "lower_both av bv =
     (case av of
        Str s \<Rightarrow> ebind (as_string bv) (\<lambda>t. Inr (Str (toLowerCase s), Str (toLowerCase t)))
      | _ \<Rightarrow> Inr (av, bv))"

definition comparator :: "heap \<Rightarrow> string \<Rightarrow> prim \<Rightarrow> jsval \<Rightarrow> jsval \<Rightarrow> error + int" where
  "comparator h field direction a b =
     ebind (get_prop h a field) (\<lambda>av.
     ebind (get_prop h b field) (\<lambda>bv.
     ebind (lower_both (sort_key direction av) (sort_key direction bv)) (\<lambda>(av, bv).
       Inr (if strict_equal direction (Str ''asc'')
            then (if js_gt av bv then 1 else if js_lt av bv then - 1 else 0)
            else (if js_lt av bv then 1 else if js_gt av bv then - 1 else 0)))))"

text \<open>
  \<^verbatim>\<open>Array.prototype.sort\<close>. The language fixes the result only for a consistent
  comparator (a stable sort, undefined elements last and never compared) and leaves the
  algorithm to the implementation. The model is a stable insertion sort: each element in
  turn is compared, as the comparator's first argument, with the elements already placed,
  from the last one down, and goes after the first one it is not below (the argument
  order of V8's insertion sort). \<open>placed\<close> holds the elements placed so far, last first.
  An exception of the comparator ends the sort.
\<close>

fun insert_from_right :: "('a \<Rightarrow> 'a \<Rightarrow> error + int) \<Rightarrow> 'a \<Rightarrow> 'a list \<Rightarrow> error + 'a list" where
  "insert_from_right cmp x [] = Inr [x]"
| "insert_from_right cmp x (y # placed) =
     ebind (cmp x y) (\<lambda>c.
       if c < 0 then ebind (insert_from_right cmp x placed) (\<lambda>r. Inr (y # r))
       else Inr (x # y # placed))"

fun sort_loop :: "('a \<Rightarrow> 'a \<Rightarrow> error + int) \<Rightarrow> 'a list \<Rightarrow> 'a list \<Rightarrow> error + 'a list" where
  "sort_loop cmp [] placed = Inr (rev placed)"
| "sort_loop cmp (x # xs) placed =
     ebind (insert_from_right cmp x placed) (\<lambda>placed'. sort_loop cmp xs placed')"

definition js_sort :: "(jsval \<Rightarrow> jsval \<Rightarrow> error + int) \<Rightarrow> jsval list \<Rightarrow> error + jsval list" where
  "js_sort cmp xs =
     ebind (sort_loop cmp (filter (\<lambda>v. v \<noteq> Prim Undefined) xs) [])
       (\<lambda>ordered. Inr (ordered @ filter (\<lambda>v. v = Prim Undefined) xs))"

text \<open>\<^verbatim>\<open>filter\<close> allocates the array \<open>f\<close>; \<^verbatim>\<open>sort\<close> reorders \<open>f\<close> in place.\<close>

definition getFiltered :: "heap \<Rightarrow> jsval \<Rightarrow> options \<Rightarrow> heap \<times> (error + jsval)" where
  "getFiltered h properties opts =
     (case properties of
        Prim v \<Rightarrow> (h, Inl TypeError)
      | Ref a \<Rightarrow>
          (case cell_at h a of
             ObjCell fs \<Rightarrow> (h, Inl TypeError)
           | ArrCell xs \<Rightarrow>
               (case filter_js (filter_callback h (defaults opts)) xs of
                  Inl e \<Rightarrow> (h, Inl e)
                | Inr kept \<Rightarrow>
                    (let (h', f) = alloc h (ArrCell kept)
                     in (case js_sort (comparator h' (sort_field_name opts)
                                         (sortDirection (defaults opts))) kept of
                           Inl e \<Rightarrow> (h', Inl e)
                         | Inr ordered \<Rightarrow> (h'[f := ArrCell ordered], Inr (Ref f)))))))"

section \<open>parseBlock\<close>

text \<open>
  \<^verbatim>\<open>
  function parseBlock(block) {
      const lines = block.split('\n').map(l => l.trim()).filter(l => l);
      let address = '', city = '', zip = '', county = '';
      let beds = null, baths = null, asking = null;
      let access = null, pictures = null, arv = null;
      let notes = [];
      for (const line of lines) {
          const lower = line.toLowerCase();
          if (!address) {
              const m = line.match(/^(\d+[^,]+),\s*([^,]+),\s*PA\s*(\d{5})?/i);
              if (m) {
                  address = m[1].trim(); city = m[2].trim(); zip = m[3] || '';
                  continue;
              }
              const s = line.match(/^(\d+[^,]+),\s*([A-Za-z\s]+)$/);
              if (s && !lower.includes('county')) {
                  address = s[1].trim(); city = s[2].trim();
                  continue;
              }
          }
          if (lower.includes('county')) {
              county = line.replace(/county/i, '').trim();
              continue;
          }
          const bm = line.match(/(\d+)\s*(?:br|bed)/i);
          const btm = line.match(/(\d+\.?\d*)\s*(?:ba|bath)/i);
          if (bm) beds = parseInt(bm[1]);
          if (btm) baths = parseFloat(btm[1]);
          if (bm || btm) continue;
          // Check ARV/worth BEFORE generic K-format prices to avoid
          // "ARV 275k" being consumed as an asking price
          if (lower.includes('arv') || lower.includes('worth')) {
              const a = line.match(/(\d+\.?\d*)\s*k/i);
              if (a) { arv = Math.round(parseFloat(a[1]) * 1000); continue; }
          }
          if (lower.includes('asking') || lower.match(/\$?\d+\.?\d*k/i)) {
              const k = line.match(/(\d+\.?\d*)\s*k/i);
              if (k) { asking = Math.round(parseFloat(k[1]) * 1000); continue; }
          }
          if (lower.includes('access') || lower.includes('lockbox') ||
              lower.includes('door') || lower.includes('code')) {
              access = line.replace(/access:?/i, '').trim();
              continue;
          }
          if (lower.includes('dropbox') || lower.includes('photos') ||
              lower.includes('pics') || line.match(/https?:\/\//)) {
              const u = line.match(/(https?:\/\/[^\s]+)/);
              if (u) { pictures = u[1]; continue; }
          }
          if (line.length > 3) notes.push(line);
      }
      return { address, city, zip, county, beds, baths, asking, access, pictures, arv,
               notes: notes.join('\n') };
  }
  \<close>
\<close>




fun join_with :: "string \<Rightarrow> string list \<Rightarrow> string" where
  "join_with s [] = []"
| "join_with s [x] = x"
| "join_with s (x # y # xs) = x @ s @ join_with s (y # xs)"



























section \<open>exportCSVString\<close>

text \<open>
  \<^verbatim>\<open>
  function getDaysSinceAdded(d) {
      if (!d) return null;
      return Math.floor(Math.abs(new Date() - new Date(d)) / (1000*60*60*24));
  }
  function exportCSVString(properties) {
      const h = ['Address','City','ZIP','County','Type','Beds','Baths','Sq Ft','Asking',
          'ARV','Rehab','Access','Stage','Notes','Photos','Contract Link','Investor Sheet',
          'Lat','Lng','Geo Precision','Date Added','Days Since Added','Last Updated'];
      const rows = properties.map(p => {
          const d = getDaysSinceAdded(p.dateAdded);
          return [
              `"${p.address}"`, p.city, p.zip||'', p.county||'', p.type, p.beds||'',
              p.baths||'', p.sqft||'', p.asking||'', p.arv||'', p.rehab||'',
              `"${p.access||''}"`, p.stage, `"${(p.notes||'').replace(/"/g,'""')}"`,
              p.pictures||'', p.contractLink||'', p.investorSheetLink||'', p.lat||'',
              p.lng||'', p.geoPrecision||'', p.dateAdded||'', d!==null?d:'',
              p.lastUpdated||''
          ];
      });
      return [h.join(','), ...rows.map(r => r.join(','))].join('\n');
  }
  \<close>
\<close>

definition getDaysSinceAdded :: "platform \<Rightarrow> prim \<Rightarrow> prim" where
  "getDaysSinceAdded P d = (if \<not> ToBoolean d then Null else Num (days_between_now_and P d))"

definition dquote :: char where
  "dquote = CHR 0x22"

definition quoted :: "string \<Rightarrow> string" where
  "quoted s = [dquote] @ s @ [dquote]"

text \<open>\<^verbatim>\<open>s.replace(/c/g, t)\<close> for a one-character pattern: every occurrence is replaced.\<close>

definition replace_all_char :: "char \<Rightarrow> string \<Rightarrow> string \<Rightarrow> string" where
  "replace_all_char c t s = concat (map (\<lambda>x. if x = c then t else [x]) s)"

definition header :: "string list" where
  "header = [''Address'', ''City'', ''ZIP'', ''County'', ''Type'', ''Beds'', ''Baths'', ''Sq Ft'',
             ''Asking'', ''ARV'', ''Rehab'', ''Access'', ''Stage'', ''Notes'', ''Photos'',
             ''Contract Link'', ''Investor Sheet'', ''Lat'', ''Lng'', ''Geo Precision'',
             ''Date Added'', ''Days Since Added'', ''Last Updated'']"

text \<open>\<^verbatim>\<open>v || ''\<close>\<close>

definition or_empty :: "prim \<Rightarrow> prim" where
  "or_empty v = js_or v (Str [])"

definition csv_cells :: "platform \<Rightarrow> (string \<Rightarrow> prim) \<Rightarrow> error + prim list" where
  "csv_cells P p =
     (let d = getDaysSinceAdded P (p ''dateAdded'')
      in ebind (as_string (or_empty (p ''notes''))) (\<lambda>notes.
         Inr [Str (quoted (ToString P (p ''address''))),
              p ''city'',
              or_empty (p ''zip''),
              or_empty (p ''county''),
              p ''type'',
              or_empty (p ''beds''),
              or_empty (p ''baths''),
              or_empty (p ''sqft''),
              or_empty (p ''asking''),
              or_empty (p ''arv''),
              or_empty (p ''rehab''),
              Str (quoted (ToString P (or_empty (p ''access'')))),
              p ''stage'',
              Str (quoted (replace_all_char dquote [dquote, dquote] notes)),
              or_empty (p ''pictures''),
              or_empty (p ''contractLink''),
              or_empty (p ''investorSheetLink''),
              or_empty (p ''lat''),
              or_empty (p ''lng''),
              or_empty (p ''geoPrecision''),
              or_empty (p ''dateAdded''),
              (if d \<noteq> Null then d else Str []),
              or_empty (p ''lastUpdated'')]))"

text \<open>\<^verbatim>\<open>join\<close> turns an element into a string; undefined and null become empty.\<close>

definition join_cell :: "platform \<Rightarrow> prim \<Rightarrow> string" where
  "join_cell P v = (if v = Undefined \<or> v = Null then [] else ToString P v)"

definition csv_row :: "platform \<Rightarrow> heap \<Rightarrow> jsval \<Rightarrow> error + string list" where
  "csv_row P h v =
     ebind (props_of h v) (\<lambda>p. ebind (csv_cells P p) (\<lambda>cells. Inr (map (join_cell P) cells)))"

fun map_js :: "('a \<Rightarrow> error + 'b) \<Rightarrow> 'a list \<Rightarrow> error + 'b list" where
  "map_js f [] = Inr []"
| "map_js f (x # xs) = ebind (f x) (\<lambda>y. ebind (map_js f xs) (\<lambda>ys. Inr (y # ys)))"

definition exportCSVString :: "platform \<Rightarrow> heap \<Rightarrow> jsval \<Rightarrow> error + string" where
  "exportCSVString P h properties =
     (case properties of
        Prim v \<Rightarrow> Inl TypeError
      | Ref a \<Rightarrow>
          (case cell_at h a of
             ObjCell fs \<Rightarrow> Inl TypeError
           | ArrCell xs \<Rightarrow>
               ebind (map_js (csv_row P h) xs) (\<lambda>rows.
                 Inr (join_with [CHR 0x0A]
                        (join_with '','' header # map (join_with '','') rows)))))"

section \<open>computeSpread\<close>


section \<open>Notions used to state the properties\<close>

definition nullish :: "jsval \<Rightarrow> bool" where
  "nullish v = (v = Prim Null \<or> v = Prim Undefined)"


text \<open>\<^verbatim>\<open>Array.isArray(v)\<close>, and the elements of an array.\<close>

definition is_array :: "heap \<Rightarrow> jsval \<Rightarrow> bool" where
  "is_array h v = (case v of Prim p \<Rightarrow> False
                   | Ref a \<Rightarrow> (case cell_at h a of ArrCell xs \<Rightarrow> True | ObjCell fs \<Rightarrow> False))"

definition elements :: "heap \<Rightarrow> jsval \<Rightarrow> jsval list" where
  "elements h v = (case v of Prim p \<Rightarrow> []
                   | Ref a \<Rightarrow> (case cell_at h a of ArrCell xs \<Rightarrow> xs | ObjCell fs \<Rightarrow> []))"

text \<open>The \<open>id\<close> of a record, the key of the deduplication.\<close>

definition id_of :: "heap \<Rightarrow> jsval \<Rightarrow> prim" where
  "id_of h p = (case get_prop h p ''id'' of Inr v \<Rightarrow> v | Inl e \<Rightarrow> Undefined)"

text \<open>
  The specification's deduplication, in its words: the first occurrence of each key is
  kept, in input order. The element at position \<open>i\<close> stays if and only if no element
  before it has its key.
\<close>

definition first_occurrences :: "('a \<Rightarrow> 'k) \<Rightarrow> 'a list \<Rightarrow> 'a list" where
  "first_occurrences key xs =
     map snd (filter (\<lambda>(i, x). key x \<notin> key ` set (take i xs)) (enumerate 0 xs))"

text \<open>The same, as a recursion over the list with the keys seen so far.\<close>

fun keep_new :: "('a \<Rightarrow> 'k) \<Rightarrow> 'k set \<Rightarrow> 'a list \<Rightarrow> 'a list" where
  "keep_new key S [] = []"
| "keep_new key S (x # xs) =
     (if key x \<in> S then keep_new key S xs else x # keep_new key (insert (key x) S) xs)"


text \<open>
  A platform for the examples: a URL is a string with an \<^verbatim>\<open>http\<close> or \<^verbatim>\<open>https\<close> scheme,
  numbers are whole, of at most 21 digits, and print in decimal, and every date is today.
\<close>

fun decimal_digits :: "nat \<Rightarrow> int \<Rightarrow> string" where
  "decimal_digits 0 n = []"
| "decimal_digits (Suc k) n =
     (if n \<le> 0 then []
      else decimal_digits k (n div 10) @ [''0123456789'' ! nat (n mod 10)])"

definition decimal :: "int \<Rightarrow> string" where
  "decimal n =
     (if n = 0 then ''0''
      else if n < 0 then ''-'' @ decimal_digits 21 (- n)
      else decimal_digits 21 n)"

definition example_platform :: platform where
  "example_platform =
     \<lparr>url_parses = (\<lambda>v. case v of Str s \<Rightarrow> starts_with ''http://'' s \<or> starts_with ''https://'' s
                          | _ \<Rightarrow> False),
      number_to_string = (\<lambda>n. case n of
                             NaN \<Rightarrow> ''NaN'' | PosInf \<Rightarrow> ''Infinity'' | NegInf \<Rightarrow> ''-Infinity''
                           | Fin q \<Rightarrow> decimal \<lfloor>q\<rfloor>),
      days_between_now_and = (\<lambda>d. Fin 0)\<rparr>"

text \<open>
  The import of the test suite: three records with the ids "1", "1" and "2", then two
  records with the id null and two without an id.
\<close>

definition import_store :: heap where
  "import_store =
     [ObjCell [(''id'', Str ''1''), (''address'', Str ''123 Main St''), (''city'', Str ''Chester'')],
      ObjCell [(''id'', Str ''1''), (''address'', Str ''456 Oak Ave''), (''city'', Str ''Bruin'')],
      ObjCell [(''id'', Str ''2''), (''address'', Str ''789 Elm St''), (''city'', Str ''Darby'')],
      ArrCell [Ref 0, Ref 1, Ref 2],
      ObjCell [(''id'', Null), (''address'', Str ''123 Main''), (''city'', Str ''Chester'')],
      ObjCell [(''id'', Null), (''address'', Str ''456 Oak''), (''city'', Str ''Bruin'')],
      ObjCell [(''address'', Str ''1 Elm''), (''city'', Str ''Darby'')],
      ObjCell [(''address'', Str ''2 Elm''), (''city'', Str ''Darby'')],
      ArrCell [Ref 4, Ref 5, Ref 6, Ref 7]]"



text \<open>Three records of the filtering tests (the second without county and beds), and the
  collection holding them.\<close>

definition sample_store :: heap where
  "sample_store =
     [ObjCell [(''id'', Str ''1''), (''address'', Str ''105 Mohawk St''), (''city'', Str ''Bruin''),
               (''county'', Str ''Butler''), (''type'', Str ''SFH''), (''stage'', Str ''Ready to Blast''),
               (''asking'', Num (Fin 29900)), (''beds'', Num (Fin 2)), (''notes'', Str ''No heat'')],
      ObjCell [(''id'', Str ''2''), (''address'', Str ''177-179 Pine St''), (''city'', Str ''Johnstown''),
               (''county'', Null), (''type'', Str ''MFH''), (''stage'', Str ''Ready to Blast''),
               (''asking'', Num (Fin 24900)), (''beds'', Null), (''notes'', Str ''Newer sewer line'')],
      ObjCell [(''id'', Str ''3''), (''address'', Str ''1317 W. 3rd St''), (''city'', Str ''Chester''),
               (''county'', Str ''Delaware''), (''type'', Str ''SFH''), (''stage'', Str ''New''),
               (''asking'', Num (Fin 99900)), (''beds'', Num (Fin 4)), (''notes'', Str [])],
      ArrCell [Ref 0, Ref 1, Ref 2]]"

definition no_options :: options where
  "no_options = \<lparr>currentFilter = Undefined, countyFilter = Undefined, typeFilter = Undefined,
                 searchTerm = Undefined, sortField = None, sortDirection = Undefined\<rparr>"


text \<open>Three records to export: the one of the test suite, one with double quotes in
  address, access and notes, and one whose address is two double quotes.\<close>

definition csv_record :: "(string \<times> prim) list" where
  "csv_record =
     [(''id'', Str ''1''), (''address'', Str ''105 Mohawk St''), (''city'', Str ''Bruin''),
      (''zip'', Str ''16022''), (''county'', Str ''Butler''), (''type'', Str ''SFH''),
      (''beds'', Num (Fin 2)), (''baths'', Num (Fin 2)), (''sqft'', Null),
      (''asking'', Num (Fin 29900)), (''arv'', Str []), (''rehab'', Str []),
      (''stage'', Str ''Ready to Blast''), (''access'', Str ''3333 front door''),
      (''pictures'', Str ''https://dropbox.com/photos''), (''contractLink'', Null),
      (''investorSheetLink'', Null), (''notes'', Str ''Gas heat, central air''),
      (''geoPrecision'', Str ''exact'')]"

definition quoting_record :: "(string \<times> prim) list" where
  "quoting_record =
     [(''address'', Str (''7 '' @ [dquote] @ ''A'')), (''city'', Str ''X''),
      (''access'', Str (''key '' @ [dquote] @ ''B'' @ [dquote] @ '' box'')),
      (''notes'', Str (''He said '' @ [dquote] @ ''hello'' @ [dquote]))]"

definition paired_quotes_record :: "(string \<times> prim) list" where
  "paired_quotes_record = [(''address'', Str [dquote, dquote]), (''city'', Str ''Y'')]"

definition csv_store :: heap where
  "csv_store = [ObjCell csv_record, ObjCell quoting_record, ObjCell paired_quotes_record,
                ArrCell [Ref 0, Ref 1, Ref 2]]"

text \<open>The CSV text of the three records: a header line and one line per record.\<close>

definition csv_text :: string where
  "csv_text = join_with [CHR 0x0A]
     [''Address,City,ZIP,County,Type,Beds,Baths,Sq Ft,Asking,ARV,Rehab,Access,Stage,Notes,Photos,Contract Link,Investor Sheet,Lat,Lng,Geo Precision,Date Added,Days Since Added,Last Updated'',
      [dquote] @ ''105 Mohawk St'' @ [dquote] @ '',Bruin,16022,Butler,SFH,2,2,,29900,,,''
        @ [dquote] @ ''3333 front door'' @ [dquote] @ '',Ready to Blast,''
        @ [dquote] @ ''Gas heat, central air'' @ [dquote]
        @ '',https://dropbox.com/photos,,,,,exact,,,'',
      [dquote] @ ''7 '' @ [dquote] @ ''A'' @ [dquote] @ '',X,,,,,,,,,,''
        @ [dquote] @ ''key '' @ [dquote] @ ''B'' @ [dquote] @ '' box'' @ [dquote] @ '',,''
        @ [dquote] @ ''He said '' @ [dquote, dquote] @ ''hello'' @ [dquote, dquote] @ [dquote]
        @ '',,,,,,,,,'',
      [dquote, dquote, dquote, dquote] @ '',Y,,,,,,,,,,'' @ [dquote, dquote] @ '',,''
        @ [dquote, dquote] @ '',,,,,,,,,'']"

text \<open>The columns written as \<^verbatim>\<open>p.f || ''\<close> and those written as \<^verbatim>\<open>p.f\<close>, by index.\<close>

definition or_empty_columns :: "(nat \<times> string) list" where
  "or_empty_columns =
     [(2, ''zip''), (3, ''county''), (5, ''beds''), (6, ''baths''), (7, ''sqft''),
      (8, ''asking''), (9, ''arv''), (10, ''rehab''), (14, ''pictures''),
      (15, ''contractLink''), (16, ''investorSheetLink''), (17, ''lat''), (18, ''lng''),
      (19, ''geoPrecision''), (20, ''dateAdded''), (22, ''lastUpdated'')]"

definition bare_columns :: "(nat \<times> string) list" where
  "bare_columns = [(1, ''city''), (4, ''type''), (12, ''stage'')]"

definition empty_value :: "prim \<Rightarrow> bool" where
  "empty_value v = (v = Undefined \<or> v = Null \<or> v = Str [])"

text \<open>The escaping of the notes, and its inverse: reading a pair of double quotes as one.\<close>

definition escaped :: "string \<Rightarrow> string" where
  "escaped s = replace_all_char dquote [dquote, dquote] s"

fun undouble :: "string \<Rightarrow> string" where
  "undouble (a # b # s) =
     (if a = dquote \<and> b = dquote then dquote # undouble s else a # undouble (b # s))"
| "undouble s = s"

text \<open>
  The sort key of a record, and the records the comparator can order: those whose key is
  empty (undefined, null or the empty string) or a finite number. \<open>empties_last\<close> says
  that every element with an empty key comes after every element with another key;
  \<open>empties_first\<close> is the same for the list of placed elements, which is kept last first.
\<close>

definition key_of :: "heap \<Rightarrow> string \<Rightarrow> jsval \<Rightarrow> prim" where
  "key_of h field p = (case get_prop h p field of Inr v \<Rightarrow> v | Inl e \<Rightarrow> Undefined)"

definition finite_number :: "prim \<Rightarrow> bool" where
  "finite_number v = (\<exists>q. v = Num (Fin q))"

definition sortable :: "heap \<Rightarrow> string \<Rightarrow> jsval \<Rightarrow> bool" where
  "sortable h field p =
     (\<not> nullish p \<and> (empty_value (key_of h field p) \<or> finite_number (key_of h field p)))"

fun empties_first :: "('a \<Rightarrow> bool) \<Rightarrow> 'a list \<Rightarrow> bool" where
  "empties_first E [] = True"
| "empties_first E (z # zs) = ((E z \<or> (\<forall>y \<in> set zs. \<not> E y)) \<and> empties_first E zs)"

definition empties_last :: "('a \<Rightarrow> bool) \<Rightarrow> 'a list \<Rightarrow> bool" where
  "empties_last E ys =
     (\<forall>i < length ys. \<forall>j < length ys. E (ys ! i) \<and> \<not> E (ys ! j) \<longrightarrow> j < i)"

section \<open>Properties\<close>

subsection \<open>computeSpread\<close>




subsection \<open>Helper lemmas\<close>

lemma ebind_Inr [simp]: "ebind (Inr x) f = f x"
  by (simp add: ebind_def)

lemma ebind_Inl [simp]: "ebind (Inl e) f = Inl e"
  by (simp add: ebind_def)

lemma own_props_Nil [simp]: "own_props [] k = Undefined"
  by (simp add: own_props_def)

lemma props_of_total: "\<not> nullish v \<Longrightarrow> \<exists>d. props_of h v = Inr d"
  by (auto simp: props_of_def nullish_def split: jsval.splits prim.splits cell.splits)

lemma props_of_nullish: "nullish v \<Longrightarrow> props_of h v = Inl TypeError"
  by (auto simp: props_of_def nullish_def)

lemma keep_new_enumerate:
  "keep_new key S xs =
     map snd (filter (\<lambda>(i, x). key x \<notin> S \<union> key ` set (take i xs)) (enumerate 0 xs))"
proof (induction xs arbitrary: S)
  case Nil
  show ?case by simp
next
  case (Cons x xs)
  have shift: "enumerate (Suc 0) xs = map (\<lambda>(i, y). (Suc i, y)) (enumerate 0 xs)"
    by (simp add: enumerate_eq_zip map_Suc_upt [symmetric] zip_map1 del: upt_Suc)
  show ?case
    by (auto simp: Cons.IH shift filter_map comp_def case_prod_beta intro!: filter_cong arg_cong [where f = "map snd"])
qed

lemma first_occurrences_keep_new: "first_occurrences key xs = keep_new key {} xs"
  by (simp add: keep_new_enumerate first_occurrences_def)

lemma keep_new_keys:
  "distinct (map key (keep_new key S xs)) \<and> key ` set (keep_new key S xs) = key ` set xs - S
   \<and> set (keep_new key S xs) \<subseteq> set xs"
  by (induction xs arbitrary: S) auto

lemma keep_new_distinct_id:
  "distinct (map key ys) \<Longrightarrow> key ` set ys \<inter> S = {} \<Longrightarrow> keep_new key S ys = ys"
  by (induction ys arbitrary: S) auto

lemma keep_new_cong:
  "(\<And>x. x \<in> set xs \<Longrightarrow> f x = g x) \<Longrightarrow> keep_new f S xs = keep_new g S xs"
  by (induction xs arbitrary: S) auto

lemma dedupe_loop_keep_new:
  "\<forall>p \<in> set rest. \<not> nullish p \<Longrightarrow>
   dedupe_loop h rest (u, S) = Inr (u @ keep_new (id_of h) S rest, S \<union> id_of h ` set rest)"
proof (induction rest arbitrary: u S)
  case Nil
  show ?case by simp
next
  case (Cons p rest)
  from Cons.prems obtain d where d: "props_of h p = Inr d"
    using props_of_total [of p h] by auto
  have k: "id_of h p = d ''id''" and g: "get_prop h p ''id'' = Inr (d ''id'')"
    by (simp_all add: id_of_def get_prop_def ebind_def d)
  from Cons.prems have r: "\<forall>p \<in> set rest. \<not> nullish p" by simp
  show ?case
    by (auto simp: g k [symmetric] Cons.IH [OF r])
qed

lemma every_required_True:
  "every_required h xs = Inr True \<Longrightarrow> p \<in> set xs \<Longrightarrow>
   \<exists>b fs. p = Ref b \<and> b < length h \<and> h ! b = ObjCell fs"
proof (induction xs)
  case Nil
  then show ?case by simp
next
  case (Cons x xs)
  show ?case
  proof (cases "p = x")
    case True
    with Cons.prems(1) show ?thesis
      by (auto simp: get_prop_def props_of_def ebind_def andthen_def cell_at_def
          split: jsval.splits prim.splits cell.splits if_splits sum.splits)
  next
    case False
    with Cons.prems have "p \<in> set xs" by simp
    moreover from Cons.prems(1) have "every_required h xs = Inr True"
      by (auto simp: ebind_def andthen_def split: sum.splits if_splits)
    ultimately show ?thesis by (rule Cons.IH [rotated])
  qed
qed

lemma every_required_not_nullish:
  "every_required h xs = Inr True \<Longrightarrow> \<forall>p \<in> set xs. \<not> nullish p"
  using every_required_True [of h xs] by (fastforce simp: nullish_def)

lemma props_of_extend:
  "b < length h \<Longrightarrow> props_of (h @ hs) (Ref b) = props_of h (Ref b)"
  by (simp add: props_of_def cell_at_def nth_append)

lemma every_required_extend:
  "\<forall>p \<in> set ys. \<exists>b. p = Ref b \<and> b < length h \<Longrightarrow>
   every_required (h @ hs) ys = every_required h ys"
  by (induction ys) (auto simp: get_prop_def props_of_extend cong: if_cong)

lemma every_required_subset:
  "every_required h xs = Inr True \<Longrightarrow> set ys \<subseteq> set xs \<Longrightarrow> every_required h ys = Inr True"
proof (induction ys)
  case Nil
  show ?case by simp
next
  case (Cons y ys)
  from Cons.prems have y: "y \<in> set xs" by simp
  have one: "\<And>zs. every_required h zs = Inr True \<Longrightarrow> y \<in> set zs \<Longrightarrow>
      andthen (ebind (get_prop h y ''address'') (\<lambda>v. Inr (ToBoolean v)))
              (ebind (get_prop h y ''city'') (\<lambda>v. Inr (ToBoolean v))) = Inr True"
  proof -
    fix zs show "every_required h zs = Inr True \<Longrightarrow> y \<in> set zs \<Longrightarrow>
      andthen (ebind (get_prop h y ''address'') (\<lambda>v. Inr (ToBoolean v)))
              (ebind (get_prop h y ''city'') (\<lambda>v. Inr (ToBoolean v))) = Inr True"
      by (induction zs) (auto simp: ebind_def split: sum.splits if_splits)
  qed
  from Cons show ?case by (simp add: one [OF Cons.prems(1) y])
qed










lemma validateImportData_success:
  assumes "cell_at h a = ArrCell xs" and "every_required h xs = Inr True"
  shows "validateImportData h (Ref a) =
           (h @ [ArrCell (keep_new (id_of h) {} xs)],
            Inr (Valid (length h) (int (length xs) - int (length (keep_new (id_of h) {} xs)))))"
  using assms dedupe_loop_keep_new [OF every_required_not_nullish [OF assms(2)], where u = "[]" and S = "{}"]
  by (simp add: validateImportData_def alloc_def)

subsection \<open>validateImportData\<close>

text \<open>
  C3. On an array whose records all have a truthy address and city (the call succeeds),
  \<^verbatim>\<open>validateImportData\<close> returns a new array holding the first occurrence of each \<open>id\<close>
  value in input order, the key being the value of \<open>id\<close> itself (null and undefined
  are keys like any other), and \<open>duplicatesRemoved\<close> is the input length minus the
  number of records kept.
\<close>

theorem validateImportData_dedupes:
  assumes "cell_at h a = ArrCell xs" and "every_required h xs = Inr True"
  shows "validateImportData h (Ref a) =
           (h @ [ArrCell (first_occurrences (id_of h) xs)],
            Inr (Valid (length h)
                   (int (length xs) - int (length (first_occurrences (id_of h) xs)))))
     \<and> distinct (map (id_of h) (first_occurrences (id_of h) xs))
     \<and> id_of h ` set (first_occurrences (id_of h) xs) = id_of h ` set xs
     \<and> set (first_occurrences (id_of h) xs) \<subseteq> set xs"
  using validateImportData_success [OF assms] keep_new_keys [of "id_of h" "{}" xs]
  by (simp add: first_occurrences_keep_new)

theorem validateImportData_dedupes_witness:
  "cell_at import_store 3 = ArrCell [Ref 0, Ref 1, Ref 2]
   \<and> every_required import_store [Ref 0, Ref 1, Ref 2] = Inr True
   \<and> validateImportData import_store (Ref 3)
       = (import_store @ [ArrCell [Ref 0, Ref 2]], Inr (Valid 9 1))
   \<and> cell_at import_store 8 = ArrCell [Ref 4, Ref 5, Ref 6, Ref 7]
   \<and> every_required import_store [Ref 4, Ref 5, Ref 6, Ref 7] = Inr True
   \<and> validateImportData import_store (Ref 8)
       = (import_store @ [ArrCell [Ref 4, Ref 6]], Inr (Valid 9 2))"
proof -
  have a: "cell_at import_store 3 = ArrCell [Ref 0, Ref 1, Ref 2]"
    and b: "cell_at import_store 8 = ArrCell [Ref 4, Ref 5, Ref 6, Ref 7]"
    by code_simp+
  have c: "every_required import_store [Ref 0, Ref 1, Ref 2] = Inr True"
    and d: "every_required import_store [Ref 4, Ref 5, Ref 6, Ref 7] = Inr True"
    by code_simp+
  have e: "first_occurrences (id_of import_store) [Ref 0, Ref 1, Ref 2] = [Ref 0, Ref 2]"
    and f: "first_occurrences (id_of import_store) [Ref 4, Ref 5, Ref 6, Ref 7] = [Ref 4, Ref 6]"
    by code_simp+
  have n: "length import_store = 9"
    by code_simp
  have r: "validateImportData import_store (Ref 3)
       = (import_store @ [ArrCell [Ref 0, Ref 2]], Inr (Valid 9 1))"
    unfolding conjunct1 [OF validateImportData_dedupes [OF a c]] e n by simp
  have s: "validateImportData import_store (Ref 8)
       = (import_store @ [ArrCell [Ref 4, Ref 6]], Inr (Valid 9 2))"
    unfolding conjunct1 [OF validateImportData_dedupes [OF b d]] f n by simp
  from a b c d r s show ?thesis by (intro conjI)
qed

text \<open>
  C7. \<^verbatim>\<open>validateImportData\<close> is idempotent on deduplication: when it succeeds, running it
  again on the \<open>properties\<close> array it returned succeeds, returns an array with the same
  records in the same order, and reports \<open>duplicatesRemoved = 0\<close>.
\<close>

theorem validateImportData_idempotent:
  assumes "validateImportData h data = (h1, Inr (Valid r n))"
  shows "validateImportData h1 (Ref r) = (h1 @ [cell_at h1 r], Inr (Valid (length h1) 0))"
proof -
  from assms obtain a xs where data: "data = Ref a" and arr: "cell_at h a = ArrCell xs"
    and req: "every_required h xs = Inr True"
    by (auto simp: validateImportData_def alloc_def
        split: jsval.splits cell.splits sum.splits bool.splits prod.splits)
  define kept where "kept = keep_new (id_of h) {} xs"
  from assms validateImportData_success [OF arr req]
  have h1: "h1 = h @ [ArrCell kept]" and r: "r = length h"
    by (simp_all add: data kept_def)
  have cell: "cell_at h1 r = ArrCell kept"
    by (simp add: h1 r cell_at_def)
  have sub: "set kept \<subseteq> set xs"
    using keep_new_keys [of "id_of h" "{}" xs] by (simp add: kept_def)
  have refs: "\<forall>p \<in> set kept. \<exists>b. p = Ref b \<and> b < length h"
    using every_required_True [OF req] sub by blast
  have req1: "every_required h1 kept = Inr True"
    using every_required_subset [OF req sub] by (simp add: h1 every_required_extend [OF refs])
  have ids: "\<And>p. p \<in> set kept \<Longrightarrow> id_of h1 p = id_of h p"
    using refs by (auto simp: id_of_def get_prop_def h1 props_of_extend)
  have "keep_new (id_of h1) {} kept = keep_new (id_of h) {} kept"
    by (rule keep_new_cong [OF ids])
  also have "\<dots> = kept"
    using keep_new_keys [of "id_of h" "{}" xs]
    by (intro keep_new_distinct_id) (simp_all add: kept_def)
  finally have fo: "keep_new (id_of h1) {} kept = kept" .
  show ?thesis
    using validateImportData_success [OF cell req1] by (simp add: fo cell)
qed

theorem validateImportData_idempotent_witness:
  "validateImportData import_store (Ref 3)
     = (import_store @ [ArrCell [Ref 0, Ref 2]], Inr (Valid 9 1))
   \<and> validateImportData (import_store @ [ArrCell [Ref 0, Ref 2]]) (Ref 9)
     = (import_store @ [ArrCell [Ref 0, Ref 2], ArrCell [Ref 0, Ref 2]], Inr (Valid 10 0))"
proof -
  have first: "validateImportData import_store (Ref 3)
     = (import_store @ [ArrCell [Ref 0, Ref 2]], Inr (Valid 9 1))"
    by code_simp
  have c: "cell_at (import_store @ [ArrCell [Ref 0, Ref 2]]) 9 = ArrCell [Ref 0, Ref 2]"
    and n: "length (import_store @ [ArrCell [Ref 0, Ref 2]]) = 10"
    by code_simp+
  have second: "validateImportData (import_store @ [ArrCell [Ref 0, Ref 2]]) (Ref 9)
     = (import_store @ [ArrCell [Ref 0, Ref 2], ArrCell [Ref 0, Ref 2]], Inr (Valid 10 0))"
    unfolding validateImportData_idempotent [OF first] c n by simp
  from first second show ?thesis by (intro conjI)
qed

subsection \<open>validatePropertyData\<close>









subsection \<open>getFiltered\<close>

text \<open>
  C2. \<^verbatim>\<open>getFiltered\<close> leaves the store it was given as it was: every cell that existed
  before the call (the input array, with its elements in their order, and every record)
  is unchanged after it, whether the call returns or throws; what it returns is a new
  array, at an address that was not in use, so never the input array.
\<close>

theorem getFiltered_frame:
  "take (length h) (fst (getFiltered h properties opts)) = h
   \<and> (\<forall>a < length h. cell_at (fst (getFiltered h properties opts)) a = cell_at h a)
   \<and> (\<forall>r. snd (getFiltered h properties opts) = Inr r \<longrightarrow>
        r = Ref (length h) \<and> r \<noteq> properties
        \<and> is_array (fst (getFiltered h properties opts)) r \<and> \<not> is_array h r)"
  by (auto simp: getFiltered_def alloc_def cell_at_def is_array_def nth_append
      split: jsval.splits cell.splits sum.splits)

theorem getFiltered_frame_witness:
  "(3::nat) < length sample_store
   \<and> cell_at (fst (getFiltered sample_store (Ref 3)
        (no_options\<lparr>sortField := Some ''asking'', sortDirection := Str ''asc''\<rparr>))) 3
       = ArrCell [Ref 0, Ref 1, Ref 2]
   \<and> getFiltered sample_store (Ref 3)
        (no_options\<lparr>sortField := Some ''asking'', sortDirection := Str ''asc''\<rparr>)
       = (sample_store @ [ArrCell [Ref 1, Ref 0, Ref 2]], Inr (Ref 4))
   \<and> Ref 4 \<noteq> Ref 3"
proof -
  let ?o = "no_options\<lparr>sortField := Some ''asking'', sortDirection := Str ''asc''\<rparr>"
  have n: "(3::nat) < length sample_store"
    and c: "cell_at sample_store 3 = ArrCell [Ref 0, Ref 1, Ref 2]"
    by code_simp+
  have g: "getFiltered sample_store (Ref 3) ?o
       = (sample_store @ [ArrCell [Ref 1, Ref 0, Ref 2]], Inr (Ref 4))"
    by code_simp
  from getFiltered_frame [of sample_store "Ref 3" ?o] n
  have "cell_at (fst (getFiltered sample_store (Ref 3) ?o)) 3 = cell_at sample_store 3"
    by blast
  then have k: "cell_at (fst (getFiltered sample_store (Ref 3) ?o)) 3 = ArrCell [Ref 0, Ref 1, Ref 2]"
    by (simp only: c)
  from getFiltered_frame [of sample_store "Ref 3" ?o] g
  have d: "Ref 4 \<noteq> Ref 3"
    by simp
  from n k g d show ?thesis by (intro conjI)
qed

lemma get_prop_alloc: "get_prop (h @ [ArrCell ks]) p f = get_prop h p f"
  by (cases p) (auto simp: get_prop_def props_of_def cell_at_def nth_append
      split: prim.splits cell.splits)

lemma comparator_alloc:
  "comparator (h @ [ArrCell ks]) field dir = comparator h field dir"
  by (intro ext) (simp add: comparator_def get_prop_alloc)

lemma key_of_get:
  "\<not> nullish p \<Longrightarrow> get_prop h p field = Inr (key_of h field p)"
  using props_of_total [of p h] by (auto simp: key_of_def get_prop_def)

lemma sort_key_cases:
  "empty_value v \<Longrightarrow>
     sort_key dir v = (if strict_equal dir (Str ''asc'') then Num PosInf else Num NegInf)"
  "finite_number v \<Longrightarrow> sort_key dir v = v"
  by (auto simp: sort_key_def empty_value_def finite_number_def)

lemma comparator_sortable:
  assumes "sortable h field x" and "sortable h field y"
  shows "\<exists>c. comparator h field dir x y = Inr c
           \<and> (empty_value (key_of h field x) \<longrightarrow> 0 \<le> c)
           \<and> (\<not> empty_value (key_of h field x) \<and> empty_value (key_of h field y) \<longrightarrow> c < 0)"
proof -
  from assms have gx: "get_prop h x field = Inr (key_of h field x)"
    and gy: "get_prop h y field = Inr (key_of h field y)"
    by (simp_all add: sortable_def key_of_get)
  from assms have
    "(empty_value (key_of h field x) \<or> finite_number (key_of h field x))
     \<and> (empty_value (key_of h field y) \<or> finite_number (key_of h field y))"
    by (simp add: sortable_def)
  moreover have "\<And>v. finite_number v \<Longrightarrow> \<not> empty_value v"
    by (auto simp: finite_number_def empty_value_def)
  ultimately show ?thesis
    by (auto simp: comparator_def gx gy sort_key_cases lower_both_def js_gt_def finite_number_def)
qed

lemma insert_from_right_sortable:
  assumes "sortable h field x" and "\<forall>y \<in> set placed. sortable h field y"
    and "empties_first (\<lambda>p. empty_value (key_of h field p)) placed"
  shows "\<exists>r. insert_from_right (comparator h field dir) x placed = Inr r
           \<and> set r = insert x (set placed) \<and> length r = Suc (length placed)
           \<and> empties_first (\<lambda>p. empty_value (key_of h field p)) r"
  using assms(2,3)
proof (induction placed)
  case Nil
  show ?case by simp
next
  case (Cons y placed)
  let ?E = "\<lambda>p. empty_value (key_of h field p)"
  from Cons.prems have sy: "sortable h field y" by simp
  from comparator_sortable [OF assms(1) sy, of dir] obtain c where
    c: "comparator h field dir x y = Inr c"
    and c1: "?E x \<longrightarrow> 0 \<le> c" and c2: "\<not> ?E x \<and> ?E y \<longrightarrow> c < 0"
    by blast
  show ?case
  proof (cases "c < 0")
    case True
    from Cons.prems have "\<forall>y \<in> set placed. sortable h field y" and "empties_first ?E placed"
      by simp_all
    from Cons.IH [OF this] obtain r where
      r: "insert_from_right (comparator h field dir) x placed = Inr r"
      and sr: "set r = insert x (set placed)" and lr: "length r = Suc (length placed)"
      and er: "empties_first ?E r"
      by blast
    from True c1 have nx: "\<not> ?E x" by auto
    from Cons.prems(2) have "?E y \<or> (\<forall>z \<in> set placed. \<not> ?E z)" by simp
    with nx sr have "?E y \<or> (\<forall>z \<in> set r. \<not> ?E z)" by auto
    with er r sr lr True c show ?thesis by auto
  next
    case False
    with c2 have "?E x \<or> \<not> ?E y" by auto
    with Cons.prems(2) have "?E x \<or> (\<forall>z \<in> set (y # placed). \<not> ?E z)" by auto
    with Cons.prems(2) False c show ?thesis by auto
  qed
qed

lemma sort_loop_sortable:
  assumes "\<forall>x \<in> set xs. sortable h field x" and "\<forall>y \<in> set placed. sortable h field y"
    and "empties_first (\<lambda>p. empty_value (key_of h field p)) placed"
  shows "\<exists>zs. sort_loop (comparator h field dir) xs placed = Inr (rev zs)
           \<and> set zs = set xs \<union> set placed \<and> length zs = length xs + length placed
           \<and> empties_first (\<lambda>p. empty_value (key_of h field p)) zs"
  using assms
proof (induction xs arbitrary: placed)
  case Nil
  then show ?case by auto
next
  case (Cons x xs)
  from Cons.prems have "sortable h field x" by simp
  from insert_from_right_sortable [OF this Cons.prems(2,3), of dir] obtain r where
    r: "insert_from_right (comparator h field dir) x placed = Inr r"
    and sr: "set r = insert x (set placed)" and lr: "length r = Suc (length placed)"
    and er: "empties_first (\<lambda>p. empty_value (key_of h field p)) r"
    by blast
  from Cons.prems sr have "\<forall>x \<in> set xs. sortable h field x" and "\<forall>y \<in> set r. sortable h field y"
    by auto
  from Cons.IH [OF this er] obtain zs where
    "sort_loop (comparator h field dir) xs r = Inr (rev zs)"
    "set zs = set xs \<union> set r" "length zs = length xs + length r"
    "empties_first (\<lambda>p. empty_value (key_of h field p)) zs"
    by blast
  with r sr lr show ?case by auto
qed

lemma empties_first_rev: "empties_first E zs \<Longrightarrow> empties_last E (rev zs)"
proof (induction zs)
  case Nil
  show ?case by (simp add: empties_last_def)
next
  case (Cons z zs)
  then have IH: "empties_last E (rev zs)" and z: "E z \<or> (\<forall>y \<in> set zs. \<not> E y)"
    by simp_all
  show ?case
    unfolding empties_last_def
  proof (intro allI impI)
    fix i j
    assume i: "i < length (rev (z # zs))" and j: "j < length (rev (z # zs))"
      and e: "E (rev (z # zs) ! i) \<and> \<not> E (rev (z # zs) ! j)"
    show "j < i"
    proof (cases "i < length zs")
      case True
      then have ei: "E (rev zs ! i)" using e by (simp add: nth_append)
      from True have "rev zs ! i \<in> set zs"
        by (metis length_rev nth_mem set_rev)
      with ei z have Ez: "E z" by auto
      have "j < length zs"
      proof (rule ccontr)
        assume "\<not> j < length zs"
        with j have "j = length zs" by simp
        with e Ez show False by (simp add: nth_append)
      qed
      with e have "\<not> E (rev zs ! j)" by (simp add: nth_append)
      with IH True \<open>j < length zs\<close> ei show ?thesis
        by (simp add: empties_last_def)
    next
      case False
      with i have il: "i = length zs" by simp
      have "j \<noteq> i"
        using e by auto
      with j il show ?thesis by simp
    qed
  qed
qed

lemma filter_js_subset: "filter_js f xs = Inr ys \<Longrightarrow> set ys \<subseteq> set xs"
proof (induction xs arbitrary: ys)
  case Nil
  then show ?case by simp
next
  case (Cons x xs)
  then show ?case
    by (auto simp: ebind_def split: sum.splits if_splits)
qed

lemma js_sort_sortable:
  assumes "\<forall>x \<in> set xs. sortable h field x"
  shows "\<exists>ys. js_sort (comparator h field dir) xs = Inr ys
           \<and> set ys = set xs \<and> length ys = length xs
           \<and> empties_last (\<lambda>p. empty_value (key_of h field p)) ys"
proof -
  from assms have "\<forall>x \<in> set xs. x \<noteq> Prim Undefined"
    by (auto simp: sortable_def nullish_def)
  then have f: "filter (\<lambda>v. v \<noteq> Prim Undefined) xs = xs"
    and g: "filter (\<lambda>v. v = Prim Undefined) xs = []"
    by (simp_all add: filter_id_conv filter_empty_conv)
  from sort_loop_sortable [OF assms, of "[]" dir] obtain zs where
    "sort_loop (comparator h field dir) xs [] = Inr (rev zs)"
    "set zs = set xs" "length zs = length xs"
    "empties_first (\<lambda>p. empty_value (key_of h field p)) zs"
    by auto
  then show ?thesis
    by (auto simp: js_sort_def f g dest: empties_first_rev)
qed

text \<open>
  Sorting by a field whose values are finite numbers or empty (undefined, null or the empty
  string) does what the comparator is written for: the call returns, the result holds the
  records that pass the filter, and those with an empty key come after all others, in
  both directions.
\<close>

lemma getFiltered_numeric_keys:
  assumes "cell_at h a = ArrCell xs"
    and "\<forall>x \<in> set xs. sortable h (sort_field_name opts) x"
    and "filter_js (filter_callback h (defaults opts)) xs = Inr kept"
  shows "\<exists>ys. getFiltered h (Ref a) opts = (h @ [ArrCell ys], Inr (Ref (length h)))
           \<and> set ys = set kept \<and> length ys = length kept
           \<and> empties_last (\<lambda>p. empty_value (key_of h (sort_field_name opts) p)) ys"
proof -
  from filter_js_subset [OF assms(3)] assms(2)
  have "\<forall>x \<in> set kept. sortable h (sort_field_name opts) x" by auto
  from js_sort_sortable [OF this, of "sortDirection (defaults opts)"] obtain ys where
    "js_sort (comparator h (sort_field_name opts) (sortDirection (defaults opts))) kept = Inr ys"
    "set ys = set kept" "length ys = length kept"
    "empties_last (\<lambda>p. empty_value (key_of h (sort_field_name opts) p)) ys"
    by blast
  then show ?thesis
    by (simp add: getFiltered_def assms(1,3) alloc_def comparator_alloc)
qed


text \<open>
  C1. Sorting by a string field with an empty key next to a non-empty one: the collection
  has the counties Butler, null and Delaware. Compared with a non-empty county first, the
  comparator throws a TypeError (it lowers \<open>Infinity\<close>); compared with the empty county
  first, it returns 0 (a number against a string is NaN), in both directions. So the
  empty key is not ordered after the others, and the call throws.
\<close>

theorem getFiltered_empty_string_key:
  "comparator sample_store ''county'' (Str ''asc'') (Ref 0) (Ref 1) = Inl TypeError
   \<and> comparator sample_store ''county'' (Str ''asc'') (Ref 1) (Ref 0) = Inr 0
   \<and> comparator sample_store ''county'' (Str ''desc'') (Ref 0) (Ref 1) = Inl TypeError
   \<and> comparator sample_store ''county'' (Str ''desc'') (Ref 1) (Ref 0) = Inr 0
   \<and> snd (getFiltered sample_store (Ref 3)
        (no_options\<lparr>sortField := Some ''county'', sortDirection := Str ''asc''\<rparr>)) = Inl TypeError
   \<and> snd (getFiltered sample_store (Ref 3)
        (no_options\<lparr>sortField := Some ''county'', sortDirection := Str ''desc''\<rparr>)) = Inl TypeError"
  by code_simp


subsection \<open>parseBlock\<close>







subsection \<open>exportCSVString\<close>

lemma escaped_Nil [simp]: "escaped [] = []"
  by (simp add: escaped_def replace_all_char_def)

lemma escaped_Cons [simp]:
  "escaped (c # s) = (if c = dquote then dquote # dquote # escaped s else c # escaped s)"
  by (simp add: escaped_def replace_all_char_def)

lemma undouble_escaped: "undouble (escaped s) = s"
proof (induction s)
  case Nil
  show ?case by simp
next
  case (Cons c s)
  show ?case
  proof (cases "c = dquote")
    case True
    with Cons show ?thesis by simp
  next
    case False
    with Cons show ?thesis
      by (cases "escaped s") auto
  qed
qed

lemma count_escaped: "count_list (escaped s) dquote = 2 * count_list s dquote"
  by (induction s) simp_all

lemma length_escaped: "length (escaped s) = length s + count_list s dquote"
  by (induction s) simp_all

lemma escaped_differs: "dquote \<in> set s \<Longrightarrow> quoted s \<noteq> quoted (escaped s)"
proof
  assume q: "dquote \<in> set s" and e: "quoted s = quoted (escaped s)"
  from q have "count_list s dquote \<noteq> 0" by (simp add: count_list_0_iff)
  with length_escaped [of s] have "length (escaped s) \<noteq> length s" by simp
  with e show False by (simp add: quoted_def)
qed

lemma join_cell_or_empty:
  "join_cell P (or_empty v) = (if falsy v then [] else ToString P v)"
  by (cases v) (auto simp: join_cell_def or_empty_def js_or_def falsy_def)

lemma join_cell_Str [simp]: "join_cell P (Str s) = s"
  by (simp add: join_cell_def)

lemma or_empty_string: "or_empty (Str a) = Str a"
  by (simp add: or_empty_def js_or_def)

lemma days_cell:
  "join_cell P (if getDaysSinceAdded P x \<noteq> Null then getDaysSinceAdded P x else Str [])
     = (if falsy x then [] else number_to_string P (days_between_now_and P x))"
  by (simp add: getDaysSinceAdded_def falsy_def join_cell_def)

lemma csv_row_cells:
  assumes "props_of h v = Inr p" and "csv_row P h v = Inr cells"
  shows "\<exists>n. or_empty (p ''notes'') = Str n \<and>
     cells = [quoted (ToString P (p ''address'')),
              join_cell P (p ''city''),
              join_cell P (or_empty (p ''zip'')),
              join_cell P (or_empty (p ''county'')),
              join_cell P (p ''type''),
              join_cell P (or_empty (p ''beds'')),
              join_cell P (or_empty (p ''baths'')),
              join_cell P (or_empty (p ''sqft'')),
              join_cell P (or_empty (p ''asking'')),
              join_cell P (or_empty (p ''arv'')),
              join_cell P (or_empty (p ''rehab'')),
              quoted (ToString P (or_empty (p ''access''))),
              join_cell P (p ''stage''),
              quoted (escaped n),
              join_cell P (or_empty (p ''pictures'')),
              join_cell P (or_empty (p ''contractLink'')),
              join_cell P (or_empty (p ''investorSheetLink'')),
              join_cell P (or_empty (p ''lat'')),
              join_cell P (or_empty (p ''lng'')),
              join_cell P (or_empty (p ''geoPrecision'')),
              join_cell P (or_empty (p ''dateAdded'')),
              (if falsy (p ''dateAdded'') then []
               else number_to_string P (days_between_now_and P (p ''dateAdded''))),
              join_cell P (or_empty (p ''lastUpdated''))]"
proof -
  from assms obtain n where n: "or_empty (p ''notes'') = Str n"
    by (cases "or_empty (p ''notes'')") (auto simp: csv_row_def csv_cells_def as_string_def Let_def)
  from assms(2) have "cells = map (join_cell P)
       [Str (quoted (ToString P (p ''address''))), p ''city'', or_empty (p ''zip''),
        or_empty (p ''county''), p ''type'', or_empty (p ''beds''), or_empty (p ''baths''),
        or_empty (p ''sqft''), or_empty (p ''asking''), or_empty (p ''arv''),
        or_empty (p ''rehab''), Str (quoted (ToString P (or_empty (p ''access'')))),
        p ''stage'', Str (quoted (escaped n)), or_empty (p ''pictures''),
        or_empty (p ''contractLink''), or_empty (p ''investorSheetLink''),
        or_empty (p ''lat''), or_empty (p ''lng''), or_empty (p ''geoPrecision''),
        or_empty (p ''dateAdded''),
        (if getDaysSinceAdded P (p ''dateAdded'') \<noteq> Null
         then getDaysSinceAdded P (p ''dateAdded'') else Str []),
        or_empty (p ''lastUpdated'')]"
    unfolding csv_row_def assms(1) ebind_Inr csv_cells_def Let_def n as_string_def escaped_def
    by simp
  then have "cells = [quoted (ToString P (p ''address'')),
              join_cell P (p ''city''),
              join_cell P (or_empty (p ''zip'')),
              join_cell P (or_empty (p ''county'')),
              join_cell P (p ''type''),
              join_cell P (or_empty (p ''beds'')),
              join_cell P (or_empty (p ''baths'')),
              join_cell P (or_empty (p ''sqft'')),
              join_cell P (or_empty (p ''asking'')),
              join_cell P (or_empty (p ''arv'')),
              join_cell P (or_empty (p ''rehab'')),
              quoted (ToString P (or_empty (p ''access''))),
              join_cell P (p ''stage''),
              quoted (escaped n),
              join_cell P (or_empty (p ''pictures'')),
              join_cell P (or_empty (p ''contractLink'')),
              join_cell P (or_empty (p ''investorSheetLink'')),
              join_cell P (or_empty (p ''lat'')),
              join_cell P (or_empty (p ''lng'')),
              join_cell P (or_empty (p ''geoPrecision'')),
              join_cell P (or_empty (p ''dateAdded'')),
              (if falsy (p ''dateAdded'') then []
               else number_to_string P (days_between_now_and P (p ''dateAdded''))),
              join_cell P (or_empty (p ''lastUpdated''))]"
    by (simp only: list.map join_cell_Str days_cell)
  with n show ?thesis by blast
qed

lemma csv_row_quoting:
  assumes "props_of h v = Inr p" and "csv_row P h v = Inr cells"
  shows "length cells = 23
     \<and> cells ! 0 = quoted (ToString P (p ''address''))
     \<and> cells ! 11 = quoted (ToString P (or_empty (p ''access'')))
     \<and> (\<exists>n. or_empty (p ''notes'') = Str n \<and> cells ! 13 = quoted (escaped n)
            \<and> undouble (escaped n) = n
            \<and> count_list (escaped n) dquote = 2 * count_list n dquote)
     \<and> (\<forall>(i, f) \<in> set or_empty_columns.
            cells ! i = (if falsy (p f) then [] else ToString P (p f)))
     \<and> (\<forall>(i, f) \<in> set bare_columns.
            cells ! i = (if p f = Undefined \<or> p f = Null then [] else ToString P (p f)))
     \<and> cells ! 21 = (if falsy (p ''dateAdded'') then []
                      else number_to_string P (days_between_now_and P (p ''dateAdded'')))
     \<and> (\<forall>(i, f) \<in> set (or_empty_columns @ bare_columns). empty_value (p f) \<longrightarrow> cells ! i = [])"
proof -
  from csv_row_cells [OF assms] obtain n where n: "or_empty (p ''notes'') = Str n"
    and c: "cells = [quoted (ToString P (p ''address'')),
              join_cell P (p ''city''),
              join_cell P (or_empty (p ''zip'')),
              join_cell P (or_empty (p ''county'')),
              join_cell P (p ''type''),
              join_cell P (or_empty (p ''beds'')),
              join_cell P (or_empty (p ''baths'')),
              join_cell P (or_empty (p ''sqft'')),
              join_cell P (or_empty (p ''asking'')),
              join_cell P (or_empty (p ''arv'')),
              join_cell P (or_empty (p ''rehab'')),
              quoted (ToString P (or_empty (p ''access''))),
              join_cell P (p ''stage''),
              quoted (escaped n),
              join_cell P (or_empty (p ''pictures'')),
              join_cell P (or_empty (p ''contractLink'')),
              join_cell P (or_empty (p ''investorSheetLink'')),
              join_cell P (or_empty (p ''lat'')),
              join_cell P (or_empty (p ''lng'')),
              join_cell P (or_empty (p ''geoPrecision'')),
              join_cell P (or_empty (p ''dateAdded'')),
              (if falsy (p ''dateAdded'') then []
               else number_to_string P (days_between_now_and P (p ''dateAdded''))),
              join_cell P (or_empty (p ''lastUpdated''))]"
    by blast
  have 1: "length cells = 23" by (simp add: c)
  have 2: "cells ! 0 = quoted (ToString P (p ''address''))" by (simp add: c)
  have 3: "cells ! 11 = quoted (ToString P (or_empty (p ''access'')))" by (simp add: c)
  have 4: "\<exists>n. or_empty (p ''notes'') = Str n \<and> cells ! 13 = quoted (escaped n)
            \<and> undouble (escaped n) = n
            \<and> count_list (escaped n) dquote = 2 * count_list n dquote"
    using n by (simp add: c undouble_escaped count_escaped)
  have 5: "\<forall>(i, f) \<in> set or_empty_columns.
            cells ! i = (if falsy (p f) then [] else ToString P (p f))"
    by (simp add: c or_empty_columns_def join_cell_or_empty)
  have 6: "\<forall>(i, f) \<in> set bare_columns.
            cells ! i = (if p f = Undefined \<or> p f = Null then [] else ToString P (p f))"
    by (simp add: c bare_columns_def join_cell_def)
  have 7: "cells ! 21 = (if falsy (p ''dateAdded'') then []
                      else number_to_string P (days_between_now_and P (p ''dateAdded'')))"
    by (simp add: c)
  have 8: "\<forall>(i, f) \<in> set (or_empty_columns @ bare_columns). empty_value (p f) \<longrightarrow> cells ! i = []"
    using 5 6 by (fastforce simp: empty_value_def falsy_def)
  from 1 2 3 4 5 6 7 8 show ?thesis by (intro conjI)
qed

lemma csv_row_verbatim_quotes:
  assumes "props_of h v = Inr p" and "csv_row P h v = Inr cells"
  shows "(\<forall>a. p ''address'' = Str a \<longrightarrow>
            cells ! 0 = quoted a
            \<and> count_list (cells ! 0) dquote = count_list a dquote + 2
            \<and> (dquote \<in> set a \<longrightarrow> cells ! 0 \<noteq> quoted (escaped a)))
     \<and> (\<forall>a. p ''access'' = Str a \<longrightarrow>
            cells ! 11 = quoted a
            \<and> count_list (cells ! 11) dquote = count_list a dquote + 2
            \<and> (dquote \<in> set a \<longrightarrow> cells ! 11 \<noteq> quoted (escaped a)))"
proof -
  from csv_row_cells [OF assms] obtain n where
    "cells = [quoted (ToString P (p ''address'')),
              join_cell P (p ''city''),
              join_cell P (or_empty (p ''zip'')),
              join_cell P (or_empty (p ''county'')),
              join_cell P (p ''type''),
              join_cell P (or_empty (p ''beds'')),
              join_cell P (or_empty (p ''baths'')),
              join_cell P (or_empty (p ''sqft'')),
              join_cell P (or_empty (p ''asking'')),
              join_cell P (or_empty (p ''arv'')),
              join_cell P (or_empty (p ''rehab'')),
              quoted (ToString P (or_empty (p ''access''))),
              join_cell P (p ''stage''),
              quoted (escaped n),
              join_cell P (or_empty (p ''pictures'')),
              join_cell P (or_empty (p ''contractLink'')),
              join_cell P (or_empty (p ''investorSheetLink'')),
              join_cell P (or_empty (p ''lat'')),
              join_cell P (or_empty (p ''lng'')),
              join_cell P (or_empty (p ''geoPrecision'')),
              join_cell P (or_empty (p ''dateAdded'')),
              (if falsy (p ''dateAdded'') then []
               else number_to_string P (days_between_now_and P (p ''dateAdded''))),
              join_cell P (or_empty (p ''lastUpdated''))]"
    by blast
  then have 0: "cells ! 0 = quoted (ToString P (p ''address''))"
    and 11: "cells ! 11 = quoted (ToString P (or_empty (p ''access'')))"
    by simp_all
  have q: "\<And>a. count_list (quoted a) dquote = count_list a dquote + 2"
    by (simp add: quoted_def)
  show ?thesis
    using escaped_differs by (auto simp: 0 11 q or_empty_string)
qed

text \<open>The text exported for the three records of \<^const>\<open>csv_store\<close>.\<close>

lemma exportCSVString_csv_store:
  "exportCSVString example_platform csv_store (Ref 3) = Inr csv_text"
  by code_simp

lemma map_js_nth:
  "map_js f xs = Inr ys \<Longrightarrow> length ys = length xs \<and> (\<forall>i < length xs. f (xs ! i) = Inr (ys ! i))"
proof (induction xs arbitrary: ys)
  case Nil
  then show ?case by simp
next
  case (Cons x xs)
  from Cons.prems obtain y ys' where y: "f x = Inr y" and ys': "map_js f xs = Inr ys'"
    and ys: "ys = y # ys'"
    by (auto simp: ebind_def split: sum.splits)
  from Cons.IH [OF ys'] y ys show ?case
    by (auto simp: nth_Cons split: nat.splits)
qed

lemma exportCSVString_rows:
  assumes "exportCSVString P h properties = Inr out"
  shows "\<exists>rows. map_js (csv_row P h) (elements h properties) = Inr rows
           \<and> out = join_with [CHR 0x0A] (join_with '','' header # map (join_with '','') rows)"
  using assms
  by (auto simp: exportCSVString_def elements_def ebind_def
      split: jsval.splits cell.splits sum.splits)

lemma exportCSVString_row:
  assumes "exportCSVString P h properties = Inr out"
    and "i < length (elements h properties)"
  shows "\<exists>rows p.
       out = join_with [CHR 0x0A] (join_with '','' header # map (join_with '','') rows)
     \<and> length rows = length (elements h properties)
     \<and> props_of h (elements h properties ! i) = Inr p
     \<and> csv_row P h (elements h properties ! i) = Inr (rows ! i)"
proof -
  from exportCSVString_rows [OF assms(1)] obtain rows where
    m: "map_js (csv_row P h) (elements h properties) = Inr rows"
    and o: "out = join_with [CHR 0x0A] (join_with '','' header # map (join_with '','') rows)"
    by blast
  from map_js_nth [OF m] assms(2)
  have l: "length rows = length (elements h properties)"
    and r: "csv_row P h (elements h properties ! i) = Inr (rows ! i)"
    by simp_all
  from r obtain p where p: "props_of h (elements h properties ! i) = Inr p"
    by (cases "props_of h (elements h properties ! i)") (simp_all add: csv_row_def)
  from o l p r show ?thesis by blast
qed

text \<open>
  C9. The text \<^verbatim>\<open>exportCSVString\<close> returns is the header line and one line per
  record, each the cells of the record joined by commas. In the row of every record, the address,
  access and notes cells are wrapped in double quotes; the notes cell holds the notes with
  every double quote doubled (reading each pair as one character gives the notes back);
  every other column holds the value as it prints, with nothing around it, and is empty
  when the value is undefined, null or the empty string.
\<close>

theorem exportCSVString_quoting:
  assumes "exportCSVString P h properties = Inr out"
    and "i < length (elements h properties)"
  shows "\<exists>rows cells p.
       out = join_with [CHR 0x0A] (join_with '','' header # map (join_with '','') rows)
     \<and> length rows = length (elements h properties)
     \<and> cells = rows ! i
     \<and> props_of h (elements h properties ! i) = Inr p
     \<and> length cells = 23
     \<and> cells ! 0 = quoted (ToString P (p ''address''))
     \<and> cells ! 11 = quoted (ToString P (or_empty (p ''access'')))
     \<and> (\<exists>n. or_empty (p ''notes'') = Str n \<and> cells ! 13 = quoted (escaped n)
            \<and> undouble (escaped n) = n
            \<and> count_list (escaped n) dquote = 2 * count_list n dquote)
     \<and> (\<forall>(i, f) \<in> set or_empty_columns.
            cells ! i = (if falsy (p f) then [] else ToString P (p f)))
     \<and> (\<forall>(i, f) \<in> set bare_columns.
            cells ! i = (if p f = Undefined \<or> p f = Null then [] else ToString P (p f)))
     \<and> cells ! 21 = (if falsy (p ''dateAdded'') then []
                      else number_to_string P (days_between_now_and P (p ''dateAdded'')))
     \<and> (\<forall>(i, f) \<in> set (or_empty_columns @ bare_columns). empty_value (p f) \<longrightarrow> cells ! i = [])"
proof -
  from exportCSVString_row [OF assms] obtain rows p where
    o: "out = join_with [CHR 0x0A] (join_with '','' header # map (join_with '','') rows)"
    and l: "length rows = length (elements h properties)"
    and p: "props_of h (elements h properties ! i) = Inr p"
    and r: "csv_row P h (elements h properties ! i) = Inr (rows ! i)"
    by blast
  note q = csv_row_quoting [OF p r]
  show ?thesis
    apply (rule exI [of _ rows])
    apply (rule exI [of _ "rows ! i"])
    apply (rule exI [of _ p])
    apply (rule conjI [OF o])
    apply (rule conjI [OF l])
    apply (rule conjI [OF refl])
    apply (rule conjI [OF p])
    apply (rule q)
    done
qed

theorem exportCSVString_quoting_witness:
  "exportCSVString example_platform csv_store (Ref 3) = Inr csv_text
   \<and> (0::nat) < length (elements csv_store (Ref 3))
   \<and> (\<exists>rows. csv_text = join_with [CHR 0x0A] (join_with '','' header # map (join_with '','') rows)
         \<and> length rows = length (elements csv_store (Ref 3))
         \<and> length (rows ! 0) = 23)"
proof -
  note e = exportCSVString_csv_store
  have l: "(0::nat) < length (elements csv_store (Ref 3))"
    by code_simp
  from exportCSVString_quoting [OF e l]
  have "\<exists>rows. csv_text = join_with [CHR 0x0A] (join_with '','' header # map (join_with '','') rows)
         \<and> length rows = length (elements csv_store (Ref 3))
         \<and> length (rows ! 0) = 23"
    by blast
  with e l show ?thesis by (intro conjI)
qed

text \<open>
  C10 (as amended). The address and access cells hold the text as it is between the
  wrapping quotes: a double quote in it is not doubled, so the cell has as many double
  quotes as the text plus two, and differs from the correctly escaped cell whenever the
  text contains a double quote.
\<close>

theorem exportCSVString_verbatim_quotes:
  assumes "exportCSVString P h properties = Inr out"
    and "i < length (elements h properties)"
  shows "\<exists>rows cells p.
       out = join_with [CHR 0x0A] (join_with '','' header # map (join_with '','') rows)
     \<and> length rows = length (elements h properties)
     \<and> cells = rows ! i
     \<and> props_of h (elements h properties ! i) = Inr p
     \<and> (\<forall>a. p ''address'' = Str a \<longrightarrow>
            cells ! 0 = quoted a
            \<and> count_list (cells ! 0) dquote = count_list a dquote + 2
            \<and> (dquote \<in> set a \<longrightarrow> cells ! 0 \<noteq> quoted (escaped a)))
     \<and> (\<forall>a. p ''access'' = Str a \<longrightarrow>
            cells ! 11 = quoted a
            \<and> count_list (cells ! 11) dquote = count_list a dquote + 2
            \<and> (dquote \<in> set a \<longrightarrow> cells ! 11 \<noteq> quoted (escaped a)))"
proof -
  from exportCSVString_row [OF assms] obtain rows p where
    o: "out = join_with [CHR 0x0A] (join_with '','' header # map (join_with '','') rows)"
    and l: "length rows = length (elements h properties)"
    and p: "props_of h (elements h properties ! i) = Inr p"
    and r: "csv_row P h (elements h properties ! i) = Inr (rows ! i)"
    by blast
  note q = csv_row_verbatim_quotes [OF p r]
  show ?thesis
    apply (rule exI [of _ rows])
    apply (rule exI [of _ "rows ! i"])
    apply (rule exI [of _ p])
    apply (rule conjI [OF o])
    apply (rule conjI [OF l])
    apply (rule conjI [OF refl])
    apply (rule conjI [OF p])
    apply (rule q)
    done
qed

theorem exportCSVString_verbatim_quotes_witness:
  "exportCSVString example_platform csv_store (Ref 3) = Inr csv_text
   \<and> (1::nat) < length (elements csv_store (Ref 3))
   \<and> props_of csv_store (elements csv_store (Ref 3) ! 1) = Inr (own_props quoting_record)
   \<and> own_props quoting_record ''address'' = Str (''7 '' @ [dquote] @ ''A'')
   \<and> dquote \<in> set (''7 '' @ [dquote] @ ''A'')
   \<and> (\<exists>rows. csv_text = join_with [CHR 0x0A] (join_with '','' header # map (join_with '','') rows)
         \<and> rows ! 1 ! 0 = quoted (''7 '' @ [dquote] @ ''A'')
         \<and> rows ! 1 ! 0 \<noteq> quoted (escaped (''7 '' @ [dquote] @ ''A''))
         \<and> count_list (rows ! 1 ! 0) dquote = 3)"
proof -
  note e = exportCSVString_csv_store
  have el: "elements csv_store (Ref 3) ! 1 = Ref 1"
    by code_simp
  have "props_of csv_store (Ref 1) = Inr (own_props quoting_record)"
    by (simp add: props_of_def csv_store_def cell_at_def)
  with el
  have b: "props_of csv_store (elements csv_store (Ref 3) ! 1) = Inr (own_props quoting_record)"
    by (simp only:)
  have l: "(1::nat) < length (elements csv_store (Ref 3))"
    and a: "own_props quoting_record ''address'' = Str (''7 '' @ [dquote] @ ''A'')"
    and d: "dquote \<in> set (''7 '' @ [dquote] @ ''A'')"
    and n: "count_list (''7 '' @ [dquote] @ ''A'') dquote + 2 = 3"
    by code_simp+
  from exportCSVString_verbatim_quotes [OF e l] obtain rows p where
    o: "csv_text = join_with [CHR 0x0A] (join_with '','' header # map (join_with '','') rows)"
    and p: "props_of csv_store (elements csv_store (Ref 3) ! 1) = Inr p"
    and q: "\<forall>a. p ''address'' = Str a \<longrightarrow>
            rows ! 1 ! 0 = quoted a
            \<and> count_list (rows ! 1 ! 0) dquote = count_list a dquote + 2
            \<and> (dquote \<in> set a \<longrightarrow> rows ! 1 ! 0 \<noteq> quoted (escaped a))"
    by blast
  from p b have "p = own_props quoting_record" by (simp only: sum.inject)
  with q a d have k: "rows ! 1 ! 0 = quoted (''7 '' @ [dquote] @ ''A'')"
    "rows ! 1 ! 0 \<noteq> quoted (escaped (''7 '' @ [dquote] @ ''A''))"
    "count_list (rows ! 1 ! 0) dquote = count_list (''7 '' @ [dquote] @ ''A'') dquote + 2"
    by blast+
  from k(3) n have c: "count_list (rows ! 1 ! 0) dquote = 3" by (simp only:)
  from o k(1,2) c have "\<exists>rows. csv_text = join_with [CHR 0x0A] (join_with '','' header # map (join_with '','') rows)
         \<and> rows ! 1 ! 0 = quoted (''7 '' @ [dquote] @ ''A'')
         \<and> rows ! 1 ! 0 \<noteq> quoted (escaped (''7 '' @ [dquote] @ ''A''))
         \<and> count_list (rows ! 1 ! 0) dquote = 3"
    by blast
  with e l b a d show ?thesis by (intro conjI)
qed

theorem exportCSVString_balanced_counterexample:
  "own_props paired_quotes_record ''address'' = Str [dquote, dquote]
   \<and> dquote \<in> set [dquote, dquote]
   \<and> csv_row example_platform csv_store (Ref 2)
       = Inr [[dquote, dquote, dquote, dquote], ''Y'', [], [], [], [], [], [], [], [], [],
              [dquote, dquote], [], [dquote, dquote], [], [], [], [], [], [], [], [], []]
   \<and> [dquote, dquote, dquote, dquote] = quoted (escaped [dquote])
   \<and> undouble [dquote, dquote] = [dquote]
   \<and> even (count_list [dquote, dquote, dquote, dquote] dquote)"
  by code_simp

end
